theory Spec2Isabelle
  imports Main
begin

section \<open>The observer dispatcher of contrib\_observer.go\<close>

text \<open>
  The file defines two interfaces (\<open>ContribObserver\<close>, \<open>ContribSpanObserver\<close>), the
  adapter \<open>oldObserver\<close> around the older \<open>Observer\<close> interface, and the two
  dispatchers \<open>compositeObserver\<close> and \<open>compositeSpanObserver\<close>.

  The implementations behind the interfaces are not part of the file. An interface value
  is therefore modelled as nil or a reference (a handle) to an external object, and the
  behaviour of the external objects is a parameter of every function: the record
  \<open>env\<close>. External objects act on an opaque world \<open>'w\<close>; a method either returns or
  panics, and in both cases leaves a world behind.

  The payload types of the opentracing package are type parameters: \<open>'so\<close> for
  \<open>opentracing.StartSpanOptions\<close>, \<open>'fo\<close> for \<open>opentracing.FinishOptions\<close> and
  \<open>'v\<close> for \<open>interface{}\<close>. A span is identified by a number.

  What the model fixes beyond the text of the file:
  \<^item> a method receiver \<open>*oldObserver\<close> or \<open>*compositeObserver\<close> is a struct value
    (the pointer is not nil), and \<open>append\<close> returns the updated struct;
  \<^item> the \<open>compositeSpanObserver\<close> structs live in a heap, so that two pointers can
    be compared; the fields of the two dispatchers are unexported, and the external
    objects change the world only, never the heap or a composite's observer list;
  \<^item> the members of a \<open>compositeSpanObserver\<close> are nil or external objects.
\<close>

subsection \<open>Values, panics and results\<close>

type_synonym handle = nat
type_synonym Span = nat
type_synonym addr = nat

text \<open>A panic carries a value; calling a method on a nil interface is the runtime's
  nil dereference panic.\<close>

datatype 'v panic_value = NilDereference | PanicValue 'v

datatype ('v, 'a) result = Returned 'a | Panicked "'v panic_value"

text \<open>Interface values. \<open>Observer\<close> is the older interface of observer.go, the one
  \<open>oldObserver\<close> wraps; its method returns the older \<open>SpanObserver\<close> interface, which
  has the method set of \<open>ContribSpanObserver\<close> and converts to it (nil to nil).\<close>

datatype ContribSpanObserver = NilSpanObserver | SpanObserver handle

datatype Observer = NilObserver | LegacyObserver handle

record oldObserver =
  obs :: Observer

text \<open>A \<open>ContribObserver\<close> is nil, the adapter of this file, or an external
  implementation.\<close>

datatype ContribObserver =
  NilContribObserver | OldObserver oldObserver | NativeObserver handle

subsection \<open>Slices\<close>

text \<open>A slice is nil, or elements with a capacity. \<open>make([]T, 0, n)\<close> is the empty
  slice of capacity \<open>n\<close>. \<open>append\<close> keeps the capacity while there is room and
  otherwise takes a new one from the runtime, whose growth policy \<open>grow\<close> (old capacity,
  needed length) is a parameter.\<close>

datatype 'a slice = NilSlice | Slice "'a list" nat

fun slice_elems :: "'a slice \<Rightarrow> 'a list" where
  "slice_elems NilSlice = []"
| "slice_elems (Slice xs c) = xs"

fun slice_cap :: "'a slice \<Rightarrow> nat" where
  "slice_cap NilSlice = 0"
| "slice_cap (Slice xs c) = c"

definition slice_len :: "'a slice \<Rightarrow> nat" where
  "slice_len s = length (slice_elems s)"

definition make_slice :: "nat \<Rightarrow> 'a slice" where
  "make_slice n = Slice [] n"

definition slice_append :: "(nat \<Rightarrow> nat \<Rightarrow> nat) \<Rightarrow> 'a slice \<Rightarrow> 'a \<Rightarrow> 'a slice" where
  "slice_append grow s x =
     (if slice_len s < slice_cap s then Slice (slice_elems s @ [x]) (slice_cap s)
      else Slice (slice_elems s @ [x]) (grow (slice_cap s) (slice_len s + 1)))"

subsection \<open>The structs, the call log and the state\<close>

record compositeObserver =
  observers_co :: "ContribObserver slice"

record compositeSpanObserver =
  observers_cso :: "ContribSpanObserver slice"

text \<open>The three methods of \<open>ContribSpanObserver\<close> with their arguments.\<close>

datatype ('fo, 'v) span_call =
  SetOperationName string | SetTag string 'v | Finish 'fo

text \<open>The call log records every method call an external object receives, with its
  arguments, in the order of the calls. It is how "called exactly once, in this order,
  with these arguments" is stated.\<close>

datatype ('so, 'fo, 'v) event =
  ContribStart handle Span string 'so
| LegacyStart handle string 'so
| SpanCall handle "('fo, 'v) span_call"

text \<open>The behaviour of the external objects, and the runtime's growth policy.\<close>

record ('w, 'so, 'fo, 'v) env =
  contrib_start :: "handle \<Rightarrow> Span \<Rightarrow> string \<Rightarrow> 'so \<Rightarrow> 'w
                      \<Rightarrow> ('v, ContribSpanObserver \<times> bool) result \<times> 'w"
  legacy_start :: "handle \<Rightarrow> string \<Rightarrow> 'so \<Rightarrow> 'w \<Rightarrow> ('v, ContribSpanObserver) result \<times> 'w"
  span_method :: "handle \<Rightarrow> ('fo, 'v) span_call \<Rightarrow> 'w \<Rightarrow> ('v, unit) result \<times> 'w"
  growslice :: "nat \<Rightarrow> nat \<Rightarrow> nat"

text \<open>The state: the \<open>compositeSpanObserver\<close> structs allocated so far (a pointer is
  an index; \<open>&compositeSpanObserver{...}\<close> allocates at the end), the call log, and
  the world of the external objects.\<close>

record ('w, 'so, 'fo, 'v) state =
  heap :: "compositeSpanObserver list"
  calls :: "('so, 'fo, 'v) event list"
  world :: 'w

definition deref :: "compositeSpanObserver list \<Rightarrow> addr \<Rightarrow> compositeSpanObserver option" where
  "deref h a = (if a < length h then Some (h ! a) else None)"

text \<open>\<open>var noopCompositeSpanObserver = &compositeSpanObserver{}\<close>: the package
  initialisation allocates the first struct, with a nil member slice.\<close>

definition noopCompositeSpanObserver :: addr where
  "noopCompositeSpanObserver = 0"

definition init_state :: "'w \<Rightarrow> ('w, 'so, 'fo, 'v) state" where
  "init_state w = \<lparr>heap = [\<lparr>observers_cso = NilSlice\<rparr>], calls = [], world = w\<rparr>"

definition noop_allocated :: "('w, 'so, 'fo, 'v) state \<Rightarrow> bool" where
  "noop_allocated s =
     (deref (heap s) noopCompositeSpanObserver = Some \<lparr>observers_cso = NilSlice\<rparr>)"

subsection \<open>Calls through the interfaces\<close>

text \<open>\<open>o.obs.OnStartSpan(operationName, options)\<close> on the older interface.\<close>

fun Observer_OnStartSpan ::
  "('w, 'so, 'fo, 'v) env \<Rightarrow> Observer \<Rightarrow> string \<Rightarrow> 'so \<Rightarrow> ('w, 'so, 'fo, 'v) state
     \<Rightarrow> ('v, ContribSpanObserver) result \<times> ('w, 'so, 'fo, 'v) state" where
  "Observer_OnStartSpan E NilObserver operationName options s = (Panicked NilDereference, s)"
| "Observer_OnStartSpan E (LegacyObserver h) operationName options s =
     (case legacy_start E h operationName options (world s) of
        (r, w) \<Rightarrow> (r, s\<lparr>calls := calls s @ [LegacyStart h operationName options], world := w\<rparr>))"

text \<open>\<open>func (o *oldObserver) OnStartSpan(sp, operationName, options)\<close>:
  \<open>return o.obs.OnStartSpan(operationName, options), true\<close>.\<close>

definition oldObserver_OnStartSpan ::
  "('w, 'so, 'fo, 'v) env \<Rightarrow> oldObserver \<Rightarrow> Span \<Rightarrow> string \<Rightarrow> 'so \<Rightarrow> ('w, 'so, 'fo, 'v) state
     \<Rightarrow> ('v, ContribSpanObserver \<times> bool) result \<times> ('w, 'so, 'fo, 'v) state" where
  "oldObserver_OnStartSpan E o' sp operationName options s =
     (case Observer_OnStartSpan E (obs o') operationName options s of
        (Returned spanObs, s') \<Rightarrow> (Returned (spanObs, True), s')
      | (Panicked p, s') \<Rightarrow> (Panicked p, s'))"

text \<open>\<open>obs.OnStartSpan(sp, operationName, options)\<close> on a \<open>ContribObserver\<close>.\<close>

fun ContribObserver_OnStartSpan ::
  "('w, 'so, 'fo, 'v) env \<Rightarrow> ContribObserver \<Rightarrow> Span \<Rightarrow> string \<Rightarrow> 'so
     \<Rightarrow> ('w, 'so, 'fo, 'v) state
     \<Rightarrow> ('v, ContribSpanObserver \<times> bool) result \<times> ('w, 'so, 'fo, 'v) state" where
  "ContribObserver_OnStartSpan E NilContribObserver sp operationName options s =
     (Panicked NilDereference, s)"
| "ContribObserver_OnStartSpan E (OldObserver o') sp operationName options s =
     oldObserver_OnStartSpan E o' sp operationName options s"
| "ContribObserver_OnStartSpan E (NativeObserver h) sp operationName options s =
     (case contrib_start E h sp operationName options (world s) of
        (r, w) \<Rightarrow>
          (r, s\<lparr>calls := calls s @ [ContribStart h sp operationName options], world := w\<rparr>))"

text \<open>One method call on a \<open>ContribSpanObserver\<close>.\<close>

fun ContribSpanObserver_call ::
  "('w, 'so, 'fo, 'v) env \<Rightarrow> ContribSpanObserver \<Rightarrow> ('fo, 'v) span_call
     \<Rightarrow> ('w, 'so, 'fo, 'v) state \<Rightarrow> ('v, unit) result \<times> ('w, 'so, 'fo, 'v) state" where
  "ContribSpanObserver_call E NilSpanObserver c s = (Panicked NilDereference, s)"
| "ContribSpanObserver_call E (SpanObserver h) c s =
     (case span_method E h c (world s) of
        (r, w) \<Rightarrow> (r, s\<lparr>calls := calls s @ [SpanCall h c], world := w\<rparr>))"

subsection \<open>compositeObserver\<close>

text \<open>\<open>func (o *compositeObserver) append(contribObserver ContribObserver)\<close>.\<close>

definition compositeObserver_append ::
  "('w, 'so, 'fo, 'v) env \<Rightarrow> compositeObserver \<Rightarrow> ContribObserver \<Rightarrow> compositeObserver" where
  "compositeObserver_append E o' contribObserver =
     o'\<lparr>observers_co := slice_append (growslice E) (observers_co o') contribObserver\<rparr>"

text \<open>The loop of \<open>compositeObserver.OnStartSpan\<close> over the observers still to be
  asked; \<open>n\<close> is \<open>len(o.observers)\<close> and \<open>spanObservers\<close> the slice collected so
  far. A panic of an observer ends the loop.\<close>

fun OnStartSpan_loop ::
  "('w, 'so, 'fo, 'v) env \<Rightarrow> ContribObserver list \<Rightarrow> nat \<Rightarrow> Span \<Rightarrow> string \<Rightarrow> 'so
     \<Rightarrow> ContribSpanObserver slice \<Rightarrow> ('w, 'so, 'fo, 'v) state
     \<Rightarrow> ('v, ContribSpanObserver slice) result \<times> ('w, 'so, 'fo, 'v) state" where
  "OnStartSpan_loop E [] n sp operationName options spanObservers s =
     (Returned spanObservers, s)"
| "OnStartSpan_loop E (ob # rest) n sp operationName options spanObservers s =
     (case ContribObserver_OnStartSpan E ob sp operationName options s of
        (Panicked p, s') \<Rightarrow> (Panicked p, s')
      | (Returned (spanObs, ok), s') \<Rightarrow>
          (if ok then
             OnStartSpan_loop E rest n sp operationName options
               (slice_append (growslice E)
                  (if spanObservers = NilSlice then make_slice n else spanObservers) spanObs) s'
           else OnStartSpan_loop E rest n sp operationName options spanObservers s'))"

text \<open>\<open>func (o *compositeObserver) OnStartSpan(sp, operationName, options)\<close>: the
  loop, then the shared no-op pointer when nothing was collected, a new struct
  otherwise.\<close>

definition compositeObserver_OnStartSpan ::
  "('w, 'so, 'fo, 'v) env \<Rightarrow> compositeObserver \<Rightarrow> Span \<Rightarrow> string \<Rightarrow> 'so
     \<Rightarrow> ('w, 'so, 'fo, 'v) state \<Rightarrow> ('v, addr) result \<times> ('w, 'so, 'fo, 'v) state" where
  "compositeObserver_OnStartSpan E o' sp operationName options s =
     (case OnStartSpan_loop E (slice_elems (observers_co o')) (slice_len (observers_co o'))
             sp operationName options NilSlice s of
        (Panicked p, s') \<Rightarrow> (Panicked p, s')
      | (Returned spanObservers, s') \<Rightarrow>
          (if slice_len spanObservers = 0 then (Returned noopCompositeSpanObserver, s')
           else (Returned (length (heap s')),
                 s'\<lparr>heap := heap s' @ [\<lparr>observers_cso = spanObservers\<rparr>]\<rparr>)))"

subsection \<open>compositeSpanObserver\<close>

text \<open>\<open>for _, obs := range o.observers { obs.M(args) }\<close>, the body of each of the
  three methods. A panic of a member ends the loop.\<close>

fun range_call ::
  "('w, 'so, 'fo, 'v) env \<Rightarrow> ContribSpanObserver list \<Rightarrow> ('fo, 'v) span_call
     \<Rightarrow> ('w, 'so, 'fo, 'v) state \<Rightarrow> ('v, unit) result \<times> ('w, 'so, 'fo, 'v) state" where
  "range_call E [] c s = (Returned (), s)"
| "range_call E (ob # rest) c s =
     (case ContribSpanObserver_call E ob c s of
        (Panicked p, s') \<Rightarrow> (Panicked p, s')
      | (Returned u, s') \<Rightarrow> range_call E rest c s')"

text \<open>A method of \<open>*compositeSpanObserver\<close> reads \<open>o.observers\<close> through the
  pointer \<open>o\<close>.\<close>

definition compositeSpanObserver_range ::
  "('w, 'so, 'fo, 'v) env \<Rightarrow> addr \<Rightarrow> ('fo, 'v) span_call
     \<Rightarrow> ('w, 'so, 'fo, 'v) state \<Rightarrow> ('v, unit) result \<times> ('w, 'so, 'fo, 'v) state" where
  "compositeSpanObserver_range E o' c s =
     (case deref (heap s) o' of
        None \<Rightarrow> (Panicked NilDereference, s)
      | Some cso \<Rightarrow> range_call E (slice_elems (observers_cso cso)) c s)"

definition compositeSpanObserver_OnSetOperationName ::
  "('w, 'so, 'fo, 'v) env \<Rightarrow> addr \<Rightarrow> string
     \<Rightarrow> ('w, 'so, 'fo, 'v) state \<Rightarrow> ('v, unit) result \<times> ('w, 'so, 'fo, 'v) state" where
  "compositeSpanObserver_OnSetOperationName E o' operationName s =
     compositeSpanObserver_range E o' (SetOperationName operationName) s"

definition compositeSpanObserver_OnSetTag ::
  "('w, 'so, 'fo, 'v) env \<Rightarrow> addr \<Rightarrow> string \<Rightarrow> 'v
     \<Rightarrow> ('w, 'so, 'fo, 'v) state \<Rightarrow> ('v, unit) result \<times> ('w, 'so, 'fo, 'v) state" where
  "compositeSpanObserver_OnSetTag E o' key val s =
     compositeSpanObserver_range E o' (SetTag key val) s"

definition compositeSpanObserver_OnFinish ::
  "('w, 'so, 'fo, 'v) env \<Rightarrow> addr \<Rightarrow> 'fo
     \<Rightarrow> ('w, 'so, 'fo, 'v) state \<Rightarrow> ('v, unit) result \<times> ('w, 'so, 'fo, 'v) state" where
  "compositeSpanObserver_OnFinish E o' options s =
     compositeSpanObserver_range E o' (Finish options) s"

subsection \<open>The tracer's side\<close>

text \<open>The tracer forwards one span event to the set it holds, by the method that
  matches the event.\<close>

fun notify ::
  "('w, 'so, 'fo, 'v) env \<Rightarrow> addr \<Rightarrow> ('fo, 'v) span_call
     \<Rightarrow> ('w, 'so, 'fo, 'v) state \<Rightarrow> ('v, unit) result \<times> ('w, 'so, 'fo, 'v) state" where
  "notify E o' (SetOperationName operationName) s =
     compositeSpanObserver_OnSetOperationName E o' operationName s"
| "notify E o' (SetTag key val) s = compositeSpanObserver_OnSetTag E o' key val s"
| "notify E o' (Finish options) s = compositeSpanObserver_OnFinish E o' options s"

text \<open>A sequence of events on one set, in order, up to the first panic.\<close>

fun notify_all ::
  "('w, 'so, 'fo, 'v) env \<Rightarrow> addr \<Rightarrow> ('fo, 'v) span_call list
     \<Rightarrow> ('w, 'so, 'fo, 'v) state \<Rightarrow> ('v, unit) result \<times> ('w, 'so, 'fo, 'v) state" where
  "notify_all E o' [] s = (Returned (), s)"
| "notify_all E o' (c # cs) s =
     (case notify E o' c s of
        (Panicked p, s') \<Rightarrow> (Panicked p, s')
      | (Returned u, s') \<Rightarrow> notify_all E o' cs s')"

text \<open>The interest query of the spec, on its own: every observer is asked in
  registration order and every answer is kept, with the observer that gave it. It
  defines which observers report interest in a given start of a span.\<close>

fun ask_all ::
  "('w, 'so, 'fo, 'v) env \<Rightarrow> ContribObserver list \<Rightarrow> Span \<Rightarrow> string \<Rightarrow> 'so
     \<Rightarrow> ('w, 'so, 'fo, 'v) state
     \<Rightarrow> ('v, (ContribObserver \<times> ContribSpanObserver \<times> bool) list) result
         \<times> ('w, 'so, 'fo, 'v) state" where
  "ask_all E [] sp operationName options s = (Returned [], s)"
| "ask_all E (ob # rest) sp operationName options s =
     (case ContribObserver_OnStartSpan E ob sp operationName options s of
        (Panicked p, s') \<Rightarrow> (Panicked p, s')
      | (Returned (spanObs, ok), s') \<Rightarrow>
          (case ask_all E rest sp operationName options s' of
             (Panicked p, s'') \<Rightarrow> (Panicked p, s'')
           | (Returned answers, s'') \<Rightarrow> (Returned ((ob, spanObs, ok) # answers), s'')))"

definition interested :: "(ContribObserver \<times> ContribSpanObserver \<times> bool) list
     \<Rightarrow> (ContribObserver \<times> ContribSpanObserver \<times> bool) list" where
  "interested answers = filter (\<lambda>(ob, spanObs, ok). ok) answers"

definition handles_of :: "(ContribObserver \<times> ContribSpanObserver \<times> bool) list
     \<Rightarrow> ContribSpanObserver list" where
  "handles_of answers = map (\<lambda>(ob, spanObs, ok). spanObs) answers"

subsection \<open>Scenarios\<close>

text \<open>Concrete observers for the examples. Observer 1 is interested exactly in the
  operation name \<open>foo\<close> and hands out handle 10; every other native observer panics.
  The older observer 2 hands out handle 20, every other older observer hands out nil.
  The span observer behind handle 30 panics, the others add their handle to the world.
  The growth policy doubles the needed length.\<close>

definition demo_env :: "(nat, nat, nat, string) env" where
  "demo_env =
     \<lparr>contrib_start = (\<lambda>h sp nm opts w.
         if h = 1 then
           (Returned (if nm = ''foo'' then (SpanObserver 10, True)
                      else (NilSpanObserver, False)), w + 1)
         else (Panicked (PanicValue ''boom''), w)),
       legacy_start = (\<lambda>h nm opts w.
         (Returned (if h = 2 then SpanObserver 20 else NilSpanObserver), w + 1)),
       span_method = (\<lambda>h c w.
         if h = 30 then (Panicked (PanicValue ''boom''), w) else (Returned (), w + h)),
       growslice = (\<lambda>c n. 2 * n)\<rparr>"

text \<open>Scenario A of the spec: observer X registered first, then the older observer L.\<close>

definition demo_composite :: compositeObserver where
  "demo_composite =
     compositeObserver_append demo_env
       (compositeObserver_append demo_env \<lparr>observers_co = NilSlice\<rparr> (NativeObserver 1))
       (OldObserver \<lparr>obs = LegacyObserver 2\<rparr>)"

text \<open>The state after the span \<open>foo\<close> started on it.\<close>

definition demo_state :: "(nat, nat, nat, string) state" where
  "demo_state =
     \<lparr>heap = [\<lparr>observers_cso = NilSlice\<rparr>,
              \<lparr>observers_cso = Slice [SpanObserver 10, SpanObserver 20] 2\<rparr>],
       calls = [ContribStart 1 7 ''foo'' 0, LegacyStart 2 ''foo'' 0], world = 2\<rparr>"

text \<open>Scenario A with a third observer, one that panics when asked.\<close>

definition panicking_composite :: compositeObserver where
  "panicking_composite = compositeObserver_append demo_env demo_composite (NativeObserver 3)"

text \<open>Observer X and an older observer whose hook hands out nil, and the state after
  the span \<open>foo\<close> started on them.\<close>

definition nil_handle_composite :: compositeObserver where
  "nil_handle_composite =
     compositeObserver_append demo_env
       (compositeObserver_append demo_env \<lparr>observers_co = NilSlice\<rparr> (NativeObserver 1))
       (OldObserver \<lparr>obs = LegacyObserver 4\<rparr>)"

definition nil_member_state :: "(nat, nat, nat, string) state" where
  "nil_member_state =
     \<lparr>heap = [\<lparr>observers_cso = NilSlice\<rparr>,
              \<lparr>observers_cso = Slice [SpanObserver 10, NilSpanObserver] 2\<rparr>],
       calls = [ContribStart 1 7 ''foo'' 0, LegacyStart 4 ''foo'' 0], world = 2\<rparr>"

text \<open>A state whose second struct has a panicking member in the middle.\<close>

definition abort_state :: "(nat, nat, nat, string) state" where
  "abort_state =
     \<lparr>heap = [\<lparr>observers_cso = NilSlice\<rparr>,
              \<lparr>observers_cso = Slice [SpanObserver 10, SpanObserver 30, SpanObserver 20] 3\<rparr>],
       calls = [], world = 0\<rparr>"

text \<open>The scenario environment with one more observer: observer 5 is always
  interested and hands out handle 30, the handle whose span observer panics. After it
  comes an older observer whose hook hands out nil; then the state after the span
  \<open>foo\<close> started on the two.\<close>

definition boom_env :: "(nat, nat, nat, string) env" where
  "boom_env =
     demo_env\<lparr>contrib_start := (\<lambda>h sp nm opts w.
        if h = 5 then (Returned (SpanObserver 30, True), w + 1)
        else contrib_start demo_env h sp nm opts w)\<rparr>"

definition boom_composite :: compositeObserver where
  "boom_composite =
     compositeObserver_append boom_env
       (compositeObserver_append boom_env \<lparr>observers_co = NilSlice\<rparr> (NativeObserver 5))
       (OldObserver \<lparr>obs = LegacyObserver 4\<rparr>)"

definition boom_state :: "(nat, nat, nat, string) state" where
  "boom_state =
     \<lparr>heap = [\<lparr>observers_cso = NilSlice\<rparr>,
              \<lparr>observers_cso = Slice [SpanObserver 30, NilSpanObserver] 2\<rparr>],
       calls = [ContribStart 5 7 ''foo'' 0, LegacyStart 4 ''foo'' 0], world = 2\<rparr>"

section \<open>Auxiliary facts\<close>

lemma slice_elems_append [simp]:
  "slice_elems (slice_append grow sl x) = slice_elems sl @ [x]"
  by (simp add: slice_append_def)

subsection \<open>The loop of the three notification methods\<close>

lemma notify_range: "notify E a c s = compositeSpanObserver_range E a c s"
  by (cases c)
    (simp_all add: compositeSpanObserver_OnSetOperationName_def
       compositeSpanObserver_OnSetTag_def compositeSpanObserver_OnFinish_def)

lemma ContribSpanObserver_call_heap:
  "ContribSpanObserver_call E m c s = (r, s') \<Longrightarrow> heap s' = heap s"
  by (cases m) (auto split: prod.splits)

lemma range_call_heap: "range_call E ms c s = (r, s') \<Longrightarrow> heap s' = heap s"
proof (induction ms arbitrary: s)
  case Nil
  then show ?case by simp
next
  case (Cons m ms)
  obtain r1 s1 where step: "ContribSpanObserver_call E m c s = (r1, s1)"
    by (cases "ContribSpanObserver_call E m c s")
  have h1: "heap s1 = heap s"
    using step by (rule ContribSpanObserver_call_heap)
  show ?case
  proof (cases r1)
    case (Returned u)
    with Cons.prems step have "range_call E ms c s1 = (r, s')" by simp
    then have "heap s' = heap s1" by (rule Cons.IH)
    with h1 show ?thesis by simp
  next
    case (Panicked p)
    with Cons.prems step have "s' = s1" by simp
    with h1 show ?thesis by simp
  qed
qed

lemma range_call_append:
  "range_call E (xs @ ys) c s =
     (case range_call E xs c s of
        (Panicked p, s') \<Rightarrow> (Panicked p, s')
      | (Returned u, s') \<Rightarrow> range_call E ys c s')"
  by (induction xs arbitrary: s) (auto split: prod.splits result.splits)

lemma range_call_well_behaved:
  "\<forall>h\<in>set hs. \<forall>w. fst (span_method E h c w) = Returned () \<Longrightarrow>
   range_call E (map SpanObserver hs) c s =
     (Returned (),
      s\<lparr>calls := calls s @ map (\<lambda>h. SpanCall h c) hs,
        world := foldl (\<lambda>w h. snd (span_method E h c w)) (world s) hs\<rparr>)"
proof (induction hs arbitrary: s)
  case Nil
  then show ?case by simp
next
  case (Cons h hs)
  obtain r w where m: "span_method E h c (world s) = (r, w)"
    by (cases "span_method E h c (world s)")
  from Cons.prems have "fst (span_method E h c (world s)) = Returned ()" by simp
  with m have r: "r = Returned ()" by simp
  from Cons.prems have rest: "\<forall>h\<in>set hs. \<forall>w. fst (span_method E h c w) = Returned ()"
    by simp
  show ?case
    using m r Cons.IH [OF rest] by simp
qed

lemma range_call_returned:
  "range_call E ms c s = (Returned u, s') \<Longrightarrow>
   \<exists>hs. ms = map SpanObserver hs \<and> calls s' = calls s @ map (\<lambda>h. SpanCall h c) hs"
proof (induction ms arbitrary: s)
  case Nil
  then show ?case by simp
next
  case (Cons m ms)
  show ?case
  proof (cases m)
    case NilSpanObserver
    with Cons.prems show ?thesis by simp
  next
    case (SpanObserver h)
    obtain r w where mm: "span_method E h c (world s) = (r, w)"
      by (cases "span_method E h c (world s)")
    let ?s1 = "s\<lparr>calls := calls s @ [SpanCall h c], world := w\<rparr>"
    from Cons.prems SpanObserver mm have rr: "range_call E ms c ?s1 = (Returned u, s')"
      by (cases r) simp_all
    from Cons.IH [OF rr] obtain hs where
      "ms = map SpanObserver hs" "calls s' = calls ?s1 @ map (\<lambda>h. SpanCall h c) hs"
      by blast
    then have "m # ms = map SpanObserver (h # hs) \<and>
        calls s' = calls s @ map (\<lambda>h. SpanCall h c) (h # hs)"
      using SpanObserver by simp
    then show ?thesis by (rule exI [of _ "h # hs"])
  qed
qed

lemma range_call_nil_reached:
  "range_call E pre c s = (Returned (), t) \<Longrightarrow>
   range_call E (pre @ NilSpanObserver # post) c s = (Panicked NilDereference, t)"
  by (simp add: range_call_append)

lemma range_call_abort:
  "range_call E pre c s = (Returned (), t) \<Longrightarrow>
   ContribSpanObserver_call E m c t = (Panicked p, t') \<Longrightarrow>
   range_call E (pre @ m # post) c s = (Panicked p, t')"
  by (simp add: range_call_append)

lemma range_call_prefix_panics:
  "range_call E pre c s = (Panicked p, t) \<Longrightarrow>
   range_call E (pre @ rest) c s = (Panicked p, t)"
  by (simp add: range_call_append)

lemma range_call_nil_member:
  "NilSpanObserver \<in> set ms \<Longrightarrow> fst (range_call E ms c s) \<noteq> Returned ()"
  by (induction ms arbitrary: s) (auto split: prod.splits result.splits)

lemma notify_noop:
  "noop_allocated s \<Longrightarrow> notify E noopCompositeSpanObserver c s = (Returned (), s)"
  by (simp add: notify_range compositeSpanObserver_range_def noop_allocated_def)

lemma notify_heap: "heap (snd (notify E a c s)) = heap s"
proof (cases "deref (heap s) a")
  case None
  then show ?thesis by (simp add: notify_range compositeSpanObserver_range_def)
next
  case (Some cso)
  obtain r s' where run: "range_call E (slice_elems (observers_cso cso)) c s = (r, s')"
    by (cases "range_call E (slice_elems (observers_cso cso)) c s")
  then have "heap s' = heap s" by (rule range_call_heap)
  with Some run show ?thesis
    by (simp add: notify_range compositeSpanObserver_range_def)
qed

lemma notify_all_heap: "heap (snd (notify_all E a cs s)) = heap s"
proof (induction cs arbitrary: s)
  case Nil
  then show ?case by simp
next
  case (Cons c cs)
  obtain r s1 where step: "notify E a c s = (r, s1)"
    by (cases "notify E a c s")
  have h1: "heap s1 = heap s" using notify_heap [of E a c s] step by simp
  show ?case
    using step h1 Cons.IH [of s1] by (cases r) simp_all
qed

subsection \<open>The interest query and the loop of OnStartSpan\<close>

lemma oldObserver_OnStartSpan_heap:
  "oldObserver_OnStartSpan E o' sp nm opts s = (r, s') \<Longrightarrow> heap s' = heap s"
  by (cases "obs o'")
    (auto simp: oldObserver_OnStartSpan_def split: prod.splits result.splits)

lemma ContribObserver_OnStartSpan_heap:
  "ContribObserver_OnStartSpan E ob sp nm opts s = (r, s') \<Longrightarrow> heap s' = heap s"
  by (cases ob) (auto split: prod.splits dest: oldObserver_OnStartSpan_heap)

lemma ask_all_heap:
  "ask_all E os sp nm opts s = (r, t) \<Longrightarrow> heap t = heap s"
proof (induction os arbitrary: s r t)
  case Nil
  then show ?case by simp
next
  case (Cons ob os)
  obtain r1 s1 where step: "ContribObserver_OnStartSpan E ob sp nm opts s = (r1, s1)"
    by (cases "ContribObserver_OnStartSpan E ob sp nm opts s")
  have h1: "heap s1 = heap s"
    using step by (rule ContribObserver_OnStartSpan_heap)
  show ?case
  proof (cases r1)
    case (Panicked p)
    with Cons.prems step have "t = s1" by simp
    with h1 show ?thesis by simp
  next
    case (Returned xo)
    obtain r2 s2 where rest: "ask_all E os sp nm opts s1 = (r2, s2)"
      by (cases "ask_all E os sp nm opts s1")
    have h2: "heap s2 = heap s1" using rest by (rule Cons.IH)
    from Cons.prems step Returned rest have "t = s2"
      by (cases xo; cases r2) simp_all
    with h1 h2 show ?thesis by simp
  qed
qed

lemma ask_all_observers:
  "ask_all E os sp nm opts s = (Returned answers, t) \<Longrightarrow> map fst answers = os"
  by (induction os arbitrary: s answers)
    (auto split: prod.splits result.splits)

lemma ask_all_append:
  "ask_all E (xs @ ys) sp nm opts s =
     (case ask_all E xs sp nm opts s of
        (Panicked p, s') \<Rightarrow> (Panicked p, s')
      | (Returned as, s') \<Rightarrow>
          (case ask_all E ys sp nm opts s' of
             (Panicked p, s'') \<Rightarrow> (Panicked p, s'')
           | (Returned bs, s'') \<Rightarrow> (Returned (as @ bs), s'')))"
  by (induction xs arbitrary: s) (auto split: prod.splits result.splits)

lemma ask_all_split:
  assumes "ask_all E (pre @ ob # post) sp nm opts s = (Returned answers, t)"
    and "ask_all E pre sp nm opts s = (Returned before, u)"
    and "ContribObserver_OnStartSpan E ob sp nm opts u = (Returned (x, ok), u1)"
  shows "\<exists>after. answers = before @ (ob, x, ok) # after
           \<and> ask_all E post sp nm opts u1 = (Returned after, t)"
proof -
  obtain r2 s2 where rest: "ask_all E post sp nm opts u1 = (r2, s2)"
    by (cases "ask_all E post sp nm opts u1")
  show ?thesis
  proof (cases r2)
    case (Panicked p)
    with assms rest show ?thesis by (simp add: ask_all_append)
  next
    case (Returned after)
    with assms rest show ?thesis by (simp add: ask_all_append)
  qed
qed

lemma handles_of_interested_split:
  "handles_of (interested (before @ (ob, x, True) # after))
     = handles_of (interested before) @ x # handles_of (interested after)"
  by (simp add: interested_def handles_of_def)

lemma loop_panics:
  "ask_all E os sp nm opts s = (Panicked p, t) \<Longrightarrow>
   OnStartSpan_loop E os n sp nm opts acc s = (Panicked p, t)"
  by (induction os arbitrary: s acc)
    (auto split: prod.splits result.splits)

lemma loop_collects_Slice:
  "ask_all E os sp nm opts s = (Returned answers, t) \<Longrightarrow>
   length xs + length os \<le> n \<Longrightarrow>
   OnStartSpan_loop E os n sp nm opts (Slice xs n) s =
     (Returned (Slice (xs @ handles_of (interested answers)) n), t)"
proof (induction os arbitrary: s xs answers t)
  case Nil
  then show ?case by (simp add: interested_def handles_of_def)
next
  case (Cons ob os)
  obtain r1 s1 where step: "ContribObserver_OnStartSpan E ob sp nm opts s = (r1, s1)"
    by (cases "ContribObserver_OnStartSpan E ob sp nm opts s")
  from Cons.prems(1) step obtain x ok where r1: "r1 = Returned (x, ok)"
    by (cases r1) auto
  obtain r2 s2 where rest: "ask_all E os sp nm opts s1 = (r2, s2)"
    by (cases "ask_all E os sp nm opts s1")
  from Cons.prems(1) step r1 rest obtain bs where
    r2: "r2 = Returned bs" and ans: "answers = (ob, x, ok) # bs" and t: "t = s2"
    by (cases r2) auto
  have rest': "ask_all E os sp nm opts s1 = (Returned bs, s2)"
    using rest r2 by simp
  show ?case
  proof (cases ok)
    case True
    have len: "length (xs @ [x]) + length os \<le> n" using Cons.prems(2) by simp
    have "OnStartSpan_loop E os n sp nm opts (Slice (xs @ [x]) n) s1 =
        (Returned (Slice ((xs @ [x]) @ handles_of (interested bs)) n), s2)"
      using rest' len by (rule Cons.IH)
    moreover have "slice_append (growslice E) (Slice xs n) x = Slice (xs @ [x]) n"
      using Cons.prems(2) by (simp add: slice_append_def slice_len_def)
    ultimately show ?thesis
      using step r1 True ans t by (simp add: interested_def handles_of_def)
  next
    case False
    have len: "length xs + length os \<le> n" using Cons.prems(2) by simp
    have "OnStartSpan_loop E os n sp nm opts (Slice xs n) s1 =
        (Returned (Slice (xs @ handles_of (interested bs)) n), s2)"
      using rest' len by (rule Cons.IH)
    then show ?thesis
      using step r1 False ans t by (simp add: interested_def handles_of_def)
  qed
qed

lemma loop_collects_Nil:
  "ask_all E os sp nm opts s = (Returned answers, t) \<Longrightarrow>
   length os \<le> n \<Longrightarrow>
   OnStartSpan_loop E os n sp nm opts NilSlice s =
     (Returned (if interested answers = [] then NilSlice
                else Slice (handles_of (interested answers)) n), t)"
proof (induction os arbitrary: s answers t)
  case Nil
  then show ?case by (simp add: interested_def)
next
  case (Cons ob os)
  obtain r1 s1 where step: "ContribObserver_OnStartSpan E ob sp nm opts s = (r1, s1)"
    by (cases "ContribObserver_OnStartSpan E ob sp nm opts s")
  from Cons.prems(1) step obtain x ok where r1: "r1 = Returned (x, ok)"
    by (cases r1) auto
  obtain r2 s2 where rest: "ask_all E os sp nm opts s1 = (r2, s2)"
    by (cases "ask_all E os sp nm opts s1")
  from Cons.prems(1) step r1 rest obtain bs where
    r2: "r2 = Returned bs" and ans: "answers = (ob, x, ok) # bs" and t: "t = s2"
    by (cases r2) auto
  have rest': "ask_all E os sp nm opts s1 = (Returned bs, s2)"
    using rest r2 by simp
  show ?case
  proof (cases ok)
    case True
    have len: "length [x] + length os \<le> n" using Cons.prems(2) by simp
    have "OnStartSpan_loop E os n sp nm opts (Slice [x] n) s1 =
        (Returned (Slice ([x] @ handles_of (interested bs)) n), s2)"
      using rest' len by (rule loop_collects_Slice)
    moreover have "slice_append (growslice E) (make_slice n) x = Slice [x] n"
      using Cons.prems(2) by (simp add: slice_append_def slice_len_def make_slice_def)
    ultimately show ?thesis
      using step r1 True ans t by (simp add: interested_def handles_of_def)
  next
    case False
    have len: "length os \<le> n" using Cons.prems(2) by simp
    have "OnStartSpan_loop E os n sp nm opts NilSlice s1 =
        (Returned (if interested bs = [] then NilSlice
                   else Slice (handles_of (interested bs)) n), s2)"
      using rest' len by (rule Cons.IH)
    then show ?thesis
      using step r1 False ans t by (simp add: interested_def handles_of_def)
  qed
qed

lemma OnStartSpan_none_interested:
  assumes "ask_all E (slice_elems (observers_co co)) sp nm opts s = (Returned answers, t)"
    and "interested answers = []"
  shows "compositeObserver_OnStartSpan E co sp nm opts s =
           (Returned noopCompositeSpanObserver, t)"
  using loop_collects_Nil [OF assms(1), of "slice_len (observers_co co)"] assms(2)
  by (simp add: compositeObserver_OnStartSpan_def slice_len_def)

lemma OnStartSpan_some_interested:
  assumes "ask_all E (slice_elems (observers_co co)) sp nm opts s = (Returned answers, t)"
    and "interested answers \<noteq> []"
  shows "compositeObserver_OnStartSpan E co sp nm opts s =
           (Returned (length (heap t)),
            t\<lparr>heap := heap t @
                 [\<lparr>observers_cso = Slice (handles_of (interested answers))
                                      (slice_len (observers_co co))\<rparr>]\<rparr>)"
  using loop_collects_Nil [OF assms(1), of "slice_len (observers_co co)"] assms(2)
  by (simp add: compositeObserver_OnStartSpan_def slice_len_def handles_of_def)

lemma OnStartSpan_panics:
  assumes "ask_all E (slice_elems (observers_co co)) sp nm opts s = (Panicked p, t)"
  shows "compositeObserver_OnStartSpan E co sp nm opts s = (Panicked p, t)"
  using loop_panics [OF assms]
  by (simp add: compositeObserver_OnStartSpan_def)

lemma deref_fresh: "deref (h @ [x]) (length h) = Some x"
  by (simp add: deref_def)

lemma deref_old: "deref h a = Some y \<Longrightarrow> deref (h @ [x]) a = Some y"
  by (auto simp: deref_def nth_append split: if_splits)

lemma OnStartSpan_heap:
  "heap (snd (compositeObserver_OnStartSpan E co sp nm opts s)) = heap s
   \<or> (\<exists>cso. heap (snd (compositeObserver_OnStartSpan E co sp nm opts s)) = heap s @ [cso])"
proof -
  obtain r t where ask: "ask_all E (slice_elems (observers_co co)) sp nm opts s = (r, t)"
    by (cases "ask_all E (slice_elems (observers_co co)) sp nm opts s")
  have heap: "heap t = heap s" using ask by (rule ask_all_heap)
  show ?thesis
  proof (cases r)
    case (Panicked p)
    with ask heap show ?thesis by (simp add: OnStartSpan_panics)
  next
    case (Returned answers)
    show ?thesis
    proof (cases "interested answers = []")
      case True
      with ask Returned heap show ?thesis by (simp add: OnStartSpan_none_interested)
    next
      case False
      with ask Returned heap show ?thesis by (simp add: OnStartSpan_some_interested)
    qed
  qed
qed

lemma noop_allocated_init: "noop_allocated (init_state w)"
  by (simp add: noop_allocated_def init_state_def deref_def noopCompositeSpanObserver_def)

subsection \<open>The scenarios, evaluated\<close>

lemma demo_composite_observers:
  "observers_co demo_composite
     = Slice [NativeObserver 1, OldObserver \<lparr>obs = LegacyObserver 2\<rparr>] 2"
  by (simp add: demo_composite_def compositeObserver_append_def slice_append_def
      slice_len_def demo_env_def)

lemma demo_ask_foo:
  "ask_all demo_env (slice_elems (observers_co demo_composite)) 7 ''foo'' 0 (init_state 0)
   = (Returned [(NativeObserver 1, SpanObserver 10, True),
                (OldObserver \<lparr>obs = LegacyObserver 2\<rparr>, SpanObserver 20, True)],
      \<lparr>heap = [\<lparr>observers_cso = NilSlice\<rparr>],
        calls = [ContribStart 1 7 ''foo'' 0, LegacyStart 2 ''foo'' 0], world = 2\<rparr>)"
  by (simp add: demo_composite_observers demo_env_def init_state_def
      oldObserver_OnStartSpan_def)

lemma demo_ask_bar:
  "ask_all demo_env (slice_elems (observers_co demo_composite)) 8 ''bar'' 0 (init_state 0)
   = (Returned [(NativeObserver 1, NilSpanObserver, False),
                (OldObserver \<lparr>obs = LegacyObserver 2\<rparr>, SpanObserver 20, True)],
      \<lparr>heap = [\<lparr>observers_cso = NilSlice\<rparr>],
        calls = [ContribStart 1 8 ''bar'' 0, LegacyStart 2 ''bar'' 0], world = 2\<rparr>)"
  by (simp add: demo_composite_observers demo_env_def init_state_def
      oldObserver_OnStartSpan_def)

lemma demo_foo_run:
  "compositeObserver_OnStartSpan demo_env demo_composite 7 ''foo'' 0 (init_state 0)
     = (Returned 1, demo_state)"
  using OnStartSpan_some_interested [OF demo_ask_foo]
  by (simp add: interested_def handles_of_def demo_composite_observers slice_len_def
      demo_state_def)

lemma demo_ask_baz:
  "ask_all demo_env (slice_elems (observers_co
       (compositeObserver_append demo_env \<lparr>observers_co = NilSlice\<rparr> (NativeObserver 1))))
     9 ''baz'' 0 demo_state
   = (Returned [(NativeObserver 1, NilSpanObserver, False)],
      demo_state\<lparr>calls := calls demo_state @ [ContribStart 1 9 ''baz'' 0], world := 3\<rparr>)"
  by (simp add: compositeObserver_append_def demo_env_def demo_state_def)

lemma panicking_composite_observers:
  "slice_elems (observers_co panicking_composite)
     = [NativeObserver 1, OldObserver \<lparr>obs = LegacyObserver 2\<rparr>] @ NativeObserver 3 # []"
  by (simp add: panicking_composite_def compositeObserver_append_def demo_composite_observers)

lemma nil_handle_composite_observers:
  "observers_co nil_handle_composite
     = Slice [NativeObserver 1, OldObserver \<lparr>obs = LegacyObserver 4\<rparr>] 2"
  by (simp add: nil_handle_composite_def compositeObserver_append_def slice_append_def
      slice_len_def demo_env_def)

lemma nil_handle_ask:
  "ask_all demo_env (slice_elems (observers_co nil_handle_composite)) 7 ''foo'' 0
     (init_state 0)
   = (Returned [(NativeObserver 1, SpanObserver 10, True),
                (OldObserver \<lparr>obs = LegacyObserver 4\<rparr>, NilSpanObserver, True)],
      \<lparr>heap = [\<lparr>observers_cso = NilSlice\<rparr>],
        calls = [ContribStart 1 7 ''foo'' 0, LegacyStart 4 ''foo'' 0], world = 2\<rparr>)"
  by (simp add: nil_handle_composite_observers demo_env_def init_state_def
      oldObserver_OnStartSpan_def)

lemma nil_handle_run:
  "compositeObserver_OnStartSpan demo_env nil_handle_composite 7 ''foo'' 0 (init_state 0)
     = (Returned 1, nil_member_state)"
  using OnStartSpan_some_interested [OF nil_handle_ask]
  by (simp add: interested_def handles_of_def nil_handle_composite_observers slice_len_def
      nil_member_state_def)

lemma nil_handle_ask_before:
  "ask_all demo_env [NativeObserver 1] 7 ''foo'' 0 (init_state 0)
   = (Returned [(NativeObserver 1, SpanObserver 10, True)],
      \<lparr>heap = [\<lparr>observers_cso = NilSlice\<rparr>],
        calls = [ContribStart 1 7 ''foo'' 0], world = 1\<rparr>)"
  by (simp add: demo_env_def init_state_def)

lemma boom_composite_observers:
  "observers_co boom_composite
     = Slice [NativeObserver 5, OldObserver \<lparr>obs = LegacyObserver 4\<rparr>] 2"
  by (simp add: boom_composite_def compositeObserver_append_def slice_append_def
      slice_len_def boom_env_def demo_env_def)

lemma boom_ask:
  "ask_all boom_env (slice_elems (observers_co boom_composite)) 7 ''foo'' 0 (init_state 0)
   = (Returned [(NativeObserver 5, SpanObserver 30, True),
                (OldObserver \<lparr>obs = LegacyObserver 4\<rparr>, NilSpanObserver, True)],
      \<lparr>heap = [\<lparr>observers_cso = NilSlice\<rparr>],
        calls = [ContribStart 5 7 ''foo'' 0, LegacyStart 4 ''foo'' 0], world = 2\<rparr>)"
  by (simp add: boom_composite_observers boom_env_def demo_env_def init_state_def
      oldObserver_OnStartSpan_def)

lemma boom_run:
  "compositeObserver_OnStartSpan boom_env boom_composite 7 ''foo'' 0 (init_state 0)
     = (Returned 1, boom_state)"
  using OnStartSpan_some_interested [OF boom_ask]
  by (simp add: interested_def handles_of_def boom_composite_observers slice_len_def
      boom_state_def)

section \<open>Span start\<close>

text \<open>
  C1. When every observer of the composite answers the interest query, \<open>OnStartSpan\<close>
  returns a pointer to a struct whose members are the handles of the observers that
  reported interest, in registration order: the answers are listed in registration
  order (their observers are the registered ones, \<open>N\<close> of them), and the members are
  the handles of the interested answers in that order, \<open>K\<close> of them. The call adds
  nothing to the call log and the world beyond what the queries did.
\<close>

theorem OnStartSpan_collects_interested:
  assumes "noop_allocated s"
    and "ask_all E (slice_elems (observers_co co)) sp nm opts s = (Returned answers, t)"
  shows "\<exists>a s' cso.
           compositeObserver_OnStartSpan E co sp nm opts s = (Returned a, s')
         \<and> deref (heap s') a = Some cso
         \<and> slice_elems (observers_cso cso) = handles_of (interested answers)
         \<and> slice_len (observers_cso cso) = length (interested answers)
         \<and> map fst answers = slice_elems (observers_co co)
         \<and> length answers = slice_len (observers_co co)
         \<and> calls s' = calls t \<and> world s' = world t"
proof -
  have obs: "map fst answers = slice_elems (observers_co co)"
    using assms(2) by (rule ask_all_observers)
  then have len: "length answers = slice_len (observers_co co)"
    by (metis length_map slice_len_def)
  have heap: "heap t = heap s" using assms(2) by (rule ask_all_heap)
  show ?thesis
  proof (cases "interested answers = []")
    case True
    have run: "compositeObserver_OnStartSpan E co sp nm opts s =
        (Returned noopCompositeSpanObserver, t)"
      using assms(2) True by (rule OnStartSpan_none_interested)
    have "deref (heap t) noopCompositeSpanObserver = Some \<lparr>observers_cso = NilSlice\<rparr>"
      using assms(1) heap by (simp add: noop_allocated_def)
    with run True obs len show ?thesis
      by (simp add: handles_of_def slice_len_def)
  next
    case False
    let ?cso = "\<lparr>observers_cso = Slice (handles_of (interested answers))
                                     (slice_len (observers_co co))\<rparr>"
    have run: "compositeObserver_OnStartSpan E co sp nm opts s =
        (Returned (length (heap t)), t\<lparr>heap := heap t @ [?cso]\<rparr>)"
      using assms(2) False by (rule OnStartSpan_some_interested)
    with obs len show ?thesis
      by (simp add: deref_fresh slice_len_def handles_of_def)
  qed
qed

theorem OnStartSpan_collects_interested_witness:
  "noop_allocated (init_state 0 :: (nat, nat, nat, string) state)
   \<and> ask_all demo_env (slice_elems (observers_co demo_composite)) 8 ''bar'' 0 (init_state 0)
     = (Returned [(NativeObserver 1, NilSpanObserver, False),
                (OldObserver \<lparr>obs = LegacyObserver 2\<rparr>, SpanObserver 20, True)],
      \<lparr>heap = [\<lparr>observers_cso = NilSlice\<rparr>],
        calls = [ContribStart 1 8 ''bar'' 0, LegacyStart 2 ''bar'' 0], world = 2\<rparr>)
   \<and> (\<exists>a s' cso.
         compositeObserver_OnStartSpan demo_env demo_composite 8 ''bar'' 0 (init_state 0)
           = (Returned a, s')
         \<and> deref (heap s') a = Some cso
         \<and> slice_elems (observers_cso cso) = [SpanObserver 20]
         \<and> slice_len (observers_cso cso) = 1)"
proof -
  have a: "noop_allocated (init_state 0 :: (nat, nat, nat, string) state)"
    by (rule noop_allocated_init)
  show ?thesis
    using OnStartSpan_collects_interested [OF a demo_ask_bar] a demo_ask_bar
    by (auto simp: interested_def handles_of_def)
qed

text \<open>
  C3. When no observer reports interest, and in particular when none is registered,
  \<open>OnStartSpan\<close> returns the pointer \<open>noopCompositeSpanObserver\<close> itself and
  allocates nothing: the heap after the call is the heap before it. Two such calls, on
  any composites, spans, operation names, options and states, return the same pointer.
  The pointer was allocated before the call and still points to the member-less struct
  after it.
\<close>

theorem none_interested_returns_noop:
  "(ask_all E (slice_elems (observers_co co)) sp nm opts s = (Returned answers, t)
      \<and> interested answers = []
    \<longrightarrow> compositeObserver_OnStartSpan E co sp nm opts s
          = (Returned noopCompositeSpanObserver, t)
        \<and> heap t = heap s)
   \<and> (slice_elems (observers_co co) = []
    \<longrightarrow> compositeObserver_OnStartSpan E co sp nm opts s
          = (Returned noopCompositeSpanObserver, s))
   \<and> (ask_all E (slice_elems (observers_co co)) sp nm opts s = (Returned answers, t)
      \<and> interested answers = []
      \<and> ask_all E (slice_elems (observers_co co')) sp' nm' opts' s'' = (Returned answers', t')
      \<and> interested answers' = []
    \<longrightarrow> fst (compositeObserver_OnStartSpan E co' sp' nm' opts' s'')
          = fst (compositeObserver_OnStartSpan E co sp nm opts s))
   \<and> (noop_allocated s
    \<longrightarrow> noopCompositeSpanObserver < length (heap s)
        \<and> noop_allocated (snd (compositeObserver_OnStartSpan E co sp nm opts s)))"
proof (intro conjI impI)
  assume a: "ask_all E (slice_elems (observers_co co)) sp nm opts s = (Returned answers, t)
      \<and> interested answers = []"
  then show "compositeObserver_OnStartSpan E co sp nm opts s
      = (Returned noopCompositeSpanObserver, t)"
    by (simp add: OnStartSpan_none_interested)
  from a show "heap t = heap s" by (auto dest: ask_all_heap)
next
  assume "slice_elems (observers_co co) = []"
  then have "ask_all E (slice_elems (observers_co co)) sp nm opts s = (Returned [], s)"
    by simp
  then show "compositeObserver_OnStartSpan E co sp nm opts s
      = (Returned noopCompositeSpanObserver, s)"
    by (rule OnStartSpan_none_interested) (simp add: interested_def)
next
  assume "ask_all E (slice_elems (observers_co co)) sp nm opts s = (Returned answers, t)
      \<and> interested answers = []
      \<and> ask_all E (slice_elems (observers_co co')) sp' nm' opts' s'' = (Returned answers', t')
      \<and> interested answers' = []"
  then show "fst (compositeObserver_OnStartSpan E co' sp' nm' opts' s'')
      = fst (compositeObserver_OnStartSpan E co sp nm opts s)"
    by (simp add: OnStartSpan_none_interested)
next
  assume n: "noop_allocated s"
  then show "noopCompositeSpanObserver < length (heap s)"
    by (simp add: noop_allocated_def deref_def split: if_splits)
  from n OnStartSpan_heap [of E co sp nm opts s]
  show "noop_allocated (snd (compositeObserver_OnStartSpan E co sp nm opts s))"
    by (auto simp: noop_allocated_def deref_old)
qed

theorem none_interested_returns_noop_witness:
  "ask_all demo_env (slice_elems (observers_co
       (compositeObserver_append demo_env \<lparr>observers_co = NilSlice\<rparr> (NativeObserver 1))))
     9 ''baz'' 0 demo_state
   = (Returned [(NativeObserver 1, NilSpanObserver, False)],
      demo_state\<lparr>calls := calls demo_state @ [ContribStart 1 9 ''baz'' 0], world := 3\<rparr>)
   \<and> interested [(NativeObserver 1, NilSpanObserver, False)] = []
   \<and> slice_elems (observers_co \<lparr>observers_co = NilSlice\<rparr>) = []
   \<and> noop_allocated demo_state
   \<and> compositeObserver_OnStartSpan demo_env
        (compositeObserver_append demo_env \<lparr>observers_co = NilSlice\<rparr> (NativeObserver 1))
        9 ''baz'' 0 demo_state
      = (Returned noopCompositeSpanObserver,
         demo_state\<lparr>calls := calls demo_state @ [ContribStart 1 9 ''baz'' 0], world := 3\<rparr>)
   \<and> compositeObserver_OnStartSpan demo_env \<lparr>observers_co = NilSlice\<rparr> 9 ''baz'' 0 demo_state
      = (Returned noopCompositeSpanObserver, demo_state)
   \<and> ask_all demo_env (slice_elems (observers_co \<lparr>observers_co = NilSlice\<rparr>))
        10 ''qux'' 1 demo_state
      = (Returned [], demo_state)
   \<and> interested ([] :: (ContribObserver \<times> ContribSpanObserver \<times> bool) list) = []
   \<and> fst (compositeObserver_OnStartSpan demo_env \<lparr>observers_co = NilSlice\<rparr>
             10 ''qux'' 1 demo_state)
      = fst (compositeObserver_OnStartSpan demo_env
               (compositeObserver_append demo_env \<lparr>observers_co = NilSlice\<rparr>
                  (NativeObserver 1))
               9 ''baz'' 0 demo_state)
   \<and> noopCompositeSpanObserver < length (heap demo_state)"
proof -
  let ?co = "compositeObserver_append demo_env \<lparr>observers_co = NilSlice\<rparr> (NativeObserver 1)"
  let ?t = "demo_state\<lparr>calls := calls demo_state @ [ContribStart 1 9 ''baz'' 0],
                    world := 3\<rparr>"
  have q: "ask_all demo_env (slice_elems (observers_co \<lparr>observers_co = NilSlice\<rparr>))
        10 ''qux'' 1 demo_state
      = (Returned [], demo_state)"
    by simp
  have j: "interested ([] :: (ContribObserver \<times> ContribSpanObserver \<times> bool) list) = []"
    by (simp add: interested_def)
  have i: "interested [(NativeObserver 1, NilSpanObserver, False)] = []"
    by (simp add: interested_def)
  have e: "slice_elems (observers_co \<lparr>observers_co = NilSlice\<rparr>) = []"
    by simp
  have n: "noop_allocated demo_state"
    by (simp add: noop_allocated_def demo_state_def deref_def noopCompositeSpanObserver_def)
  note first = none_interested_returns_noop
      [where E = demo_env and sp = 9 and nm = "''baz''" and opts = 0 and s = demo_state
         and co = ?co and answers = "[(NativeObserver 1, NilSpanObserver, False)]"
         and t = ?t
         and co' = "\<lparr>observers_co = NilSlice\<rparr>" and sp' = 10 and nm' = "''qux''"
         and opts' = 1 and s'' = demo_state and answers' = "[]" and t' = demo_state]
  note second = none_interested_returns_noop
      [where E = demo_env and sp = 9 and nm = "''baz''" and opts = 0 and s = demo_state
         and co = "\<lparr>observers_co = NilSlice\<rparr>"]
  have c1: "compositeObserver_OnStartSpan demo_env ?co 9 ''baz'' 0 demo_state
      = (Returned noopCompositeSpanObserver, ?t)"
    using first demo_ask_baz i by blast
  have c2: "compositeObserver_OnStartSpan demo_env \<lparr>observers_co = NilSlice\<rparr>
        9 ''baz'' 0 demo_state
      = (Returned noopCompositeSpanObserver, demo_state)"
    using second e by blast
  have c3: "fst (compositeObserver_OnStartSpan demo_env \<lparr>observers_co = NilSlice\<rparr>
             10 ''qux'' 1 demo_state)
      = fst (compositeObserver_OnStartSpan demo_env ?co 9 ''baz'' 0 demo_state)"
    using first demo_ask_baz i q j by blast
  have c4: "noopCompositeSpanObserver < length (heap demo_state)"
    using first n by blast
  show ?thesis
    by (intro conjI) (rule demo_ask_baz i e n c1 c2 q j c3 c4)+
qed

text \<open>
  C5, as the code has it. When at least one observer reports interest, \<open>OnStartSpan\<close>
  allocates a new struct at a fresh address; its member slice holds the \<open>K\<close> collected
  handles and has the capacity \<open>len(o.observers)\<close>, the number \<open>N\<close> of registered
  observers, with \<open>K \<le> N\<close>.
\<close>

theorem some_interested_allocates:
  assumes "ask_all E (slice_elems (observers_co co)) sp nm opts s = (Returned answers, t)"
    and "interested answers \<noteq> []"
  shows "compositeObserver_OnStartSpan E co sp nm opts s =
           (Returned (length (heap s)),
            t\<lparr>heap := heap s @
                 [\<lparr>observers_cso = Slice (handles_of (interested answers))
                                      (slice_len (observers_co co))\<rparr>]\<rparr>)
         \<and> slice_cap (Slice (handles_of (interested answers)) (slice_len (observers_co co)))
             = slice_len (observers_co co)
         \<and> slice_len (Slice (handles_of (interested answers)) (slice_len (observers_co co)))
             = length (interested answers)
         \<and> length (interested answers) \<le> slice_len (observers_co co)"
proof -
  have heap: "heap t = heap s" using assms(1) by (rule ask_all_heap)
  have "length answers = slice_len (observers_co co)"
    using ask_all_observers [OF assms(1)] by (metis length_map slice_len_def)
  then have "length (interested answers) \<le> slice_len (observers_co co)"
    by (metis interested_def length_filter_le)
  then show ?thesis
    using OnStartSpan_some_interested [OF assms] heap
    by (simp add: slice_len_def handles_of_def)
qed

theorem some_interested_allocates_witness:
  "ask_all demo_env (slice_elems (observers_co demo_composite)) 8 ''bar'' 0 (init_state 0)
     = (Returned [(NativeObserver 1, NilSpanObserver, False),
                (OldObserver \<lparr>obs = LegacyObserver 2\<rparr>, SpanObserver 20, True)],
      \<lparr>heap = [\<lparr>observers_cso = NilSlice\<rparr>],
        calls = [ContribStart 1 8 ''bar'' 0, LegacyStart 2 ''bar'' 0], world = 2\<rparr>)
   \<and> interested [(NativeObserver 1, NilSpanObserver, False),
                (OldObserver \<lparr>obs = LegacyObserver 2\<rparr>, SpanObserver 20, True)] \<noteq> []
   \<and> compositeObserver_OnStartSpan demo_env demo_composite 8 ''bar'' 0 (init_state 0)
     = (Returned 1,
        \<lparr>heap = [\<lparr>observers_cso = NilSlice\<rparr>, \<lparr>observers_cso = Slice [SpanObserver 20] 2\<rparr>],
          calls = [ContribStart 1 8 ''bar'' 0, LegacyStart 2 ''bar'' 0], world = 2\<rparr>)"
proof -
  have i: "interested [(NativeObserver 1, NilSpanObserver, False),
                (OldObserver \<lparr>obs = LegacyObserver 2\<rparr>, SpanObserver 20, True)] \<noteq> []"
    by (simp add: interested_def)
  show ?thesis
    using some_interested_allocates [OF demo_ask_bar i] demo_ask_bar i
    by (simp add: interested_def handles_of_def demo_composite_observers slice_len_def
        init_state_def)
qed

text \<open>In scenario A the span \<open>bar\<close> interests one observer of two: the new struct has
  one member and capacity two, so the capacity is not the collected count.\<close>

theorem presized_to_count_counterexample:
  "fst (compositeObserver_OnStartSpan demo_env demo_composite 8 ''bar'' 0 (init_state 0))
     = Returned 1
   \<and> map_option (slice_len \<circ> observers_cso)
        (deref (heap (snd (compositeObserver_OnStartSpan demo_env demo_composite
                             8 ''bar'' 0 (init_state 0)))) 1) = Some 1
   \<and> map_option (slice_cap \<circ> observers_cso)
        (deref (heap (snd (compositeObserver_OnStartSpan demo_env demo_composite
                             8 ''bar'' 0 (init_state 0)))) 1) = Some 2
   \<and> map_option (slice_cap \<circ> observers_cso)
        (deref (heap (snd (compositeObserver_OnStartSpan demo_env demo_composite
                             8 ''bar'' 0 (init_state 0)))) 1)
     \<noteq> map_option (slice_len \<circ> observers_cso)
        (deref (heap (snd (compositeObserver_OnStartSpan demo_env demo_composite
                             8 ''bar'' 0 (init_state 0)))) 1)"
proof -
  have i: "interested [(NativeObserver 1, NilSpanObserver, False),
                (OldObserver \<lparr>obs = LegacyObserver 2\<rparr>, SpanObserver 20, True)] \<noteq> []"
    by (simp add: interested_def)
  show ?thesis
    using OnStartSpan_some_interested [OF demo_ask_bar i]
    by (simp add: interested_def handles_of_def demo_composite_observers slice_len_def
        deref_def)
qed

section \<open>The adapter of the older observers\<close>

text \<open>
  C4. When the hook of the wrapped older observer returns a handle, the adapter's
  \<open>OnStartSpan\<close> returns that handle with interest \<open>true\<close>. Whatever the hook does,
  the call log grows by exactly one call of the hook, with the operation name and the
  options of the outer call; the adapter never reports \<open>false\<close>; and its result is
  the same for every span. All of this holds for every operation name.
\<close>

theorem adapter_always_interested:
  "(legacy_start E h nm opts (world s) = (Returned x, w)
    \<longrightarrow> oldObserver_OnStartSpan E \<lparr>obs = LegacyObserver h\<rparr> sp nm opts s
          = (Returned (x, True),
             s\<lparr>calls := calls s @ [LegacyStart h nm opts], world := w\<rparr>))
   \<and> calls (snd (oldObserver_OnStartSpan E \<lparr>obs = LegacyObserver h\<rparr> sp nm opts s))
       = calls s @ [LegacyStart h nm opts]
   \<and> fst (oldObserver_OnStartSpan E adapter sp nm opts s) \<noteq> Returned (y, False)
   \<and> oldObserver_OnStartSpan E adapter sp' nm opts s
       = oldObserver_OnStartSpan E adapter sp nm opts s"
proof (intro conjI impI)
  assume "legacy_start E h nm opts (world s) = (Returned x, w)"
  then show "oldObserver_OnStartSpan E \<lparr>obs = LegacyObserver h\<rparr> sp nm opts s
      = (Returned (x, True), s\<lparr>calls := calls s @ [LegacyStart h nm opts], world := w\<rparr>)"
    by (simp add: oldObserver_OnStartSpan_def)
next
  show "calls (snd (oldObserver_OnStartSpan E \<lparr>obs = LegacyObserver h\<rparr> sp nm opts s))
       = calls s @ [LegacyStart h nm opts]"
    by (simp add: oldObserver_OnStartSpan_def split: prod.splits result.splits)
next
  show "fst (oldObserver_OnStartSpan E adapter sp nm opts s) \<noteq> Returned (y, False)"
    by (simp add: oldObserver_OnStartSpan_def split: prod.splits result.splits)
next
  show "oldObserver_OnStartSpan E adapter sp' nm opts s
       = oldObserver_OnStartSpan E adapter sp nm opts s"
    by (simp add: oldObserver_OnStartSpan_def)
qed

theorem adapter_always_interested_witness:
  "legacy_start demo_env 2 ''bar'' 0 (world (init_state 0 :: (nat, nat, nat, string) state))
     = (Returned (SpanObserver 20), 1)
   \<and> oldObserver_OnStartSpan demo_env \<lparr>obs = LegacyObserver 2\<rparr> 8 ''bar'' 0 (init_state 0)
     = (Returned (SpanObserver 20, True),
        \<lparr>heap = [\<lparr>observers_cso = NilSlice\<rparr>], calls = [LegacyStart 2 ''bar'' 0], world = 1\<rparr>)"
proof -
  have l: "legacy_start demo_env 2 ''bar'' 0
      (world (init_state 0 :: (nat, nat, nat, string) state)) = (Returned (SpanObserver 20), 1)"
    by (simp add: demo_env_def init_state_def)
  show ?thesis
    using adapter_always_interested
      [of demo_env 2 "''bar''" 0 "init_state 0" "SpanObserver 20" 1 8] l
    by (simp add: init_state_def)
qed

text \<open>
  C10, as the code has it. Let the composite hold an adapter, let the observers
  registered before it answer the interest query, and let the wrapped hook, called at
  this start of a span, return the nil handle. Then the adapter reports (nil, true),
  and when the remaining observers answer too, \<open>OnStartSpan\<close> returns a struct whose
  members are the handles of the interested observers before the adapter, then nil,
  then the handles of the interested observers after it. No later notification on that
  struct returns normally. When the members before the nil one return, the notification
  calls the method on the nil member and ends in the nil dereference panic right there;
  when a member before it panics, the notification ends with that panic instead.
\<close>

theorem nil_handle_becomes_member:
  assumes obs: "slice_elems (observers_co co)
                  = pre @ OldObserver \<lparr>obs = LegacyObserver h\<rparr> # post"
    and before: "ask_all E pre sp nm opts s = (Returned before, u)"
    and hook: "legacy_start E h nm opts (world u) = (Returned NilSpanObserver, w)"
    and all: "ask_all E (slice_elems (observers_co co)) sp nm opts s = (Returned answers, t)"
  shows "oldObserver_OnStartSpan E \<lparr>obs = LegacyObserver h\<rparr> sp nm opts u
           = (Returned (NilSpanObserver, True),
              u\<lparr>calls := calls u @ [LegacyStart h nm opts], world := w\<rparr>)
       \<and> (\<exists>a s' cso after.
             compositeObserver_OnStartSpan E co sp nm opts s = (Returned a, s')
           \<and> deref (heap s') a = Some cso
           \<and> slice_elems (observers_cso cso)
               = handles_of (interested before) @ NilSpanObserver
                   # handles_of (interested after)
           \<and> (\<forall>c v. deref (heap v) a = Some cso
                 \<longrightarrow> fst (notify E a c v) \<noteq> Returned ())
           \<and> (\<forall>c v v'. deref (heap v) a = Some cso
                   \<and> range_call E (handles_of (interested before)) c v = (Returned (), v')
                 \<longrightarrow> notify E a c v = (Panicked NilDereference, v'))
           \<and> (\<forall>c v v' p. deref (heap v) a = Some cso
                   \<and> range_call E (handles_of (interested before)) c v = (Panicked p, v')
                 \<longrightarrow> notify E a c v = (Panicked p, v')))"
proof
  let ?u1 = "u\<lparr>calls := calls u @ [LegacyStart h nm opts], world := w\<rparr>"
  let ?ob = "OldObserver \<lparr>obs = LegacyObserver h\<rparr>"
  show adapter: "oldObserver_OnStartSpan E \<lparr>obs = LegacyObserver h\<rparr> sp nm opts u
      = (Returned (NilSpanObserver, True), ?u1)"
    using hook by (simp add: oldObserver_OnStartSpan_def)
  then have q: "ContribObserver_OnStartSpan E ?ob sp nm opts u
      = (Returned (NilSpanObserver, True), ?u1)"
    by simp
  obtain after where ans: "answers = before @ (?ob, NilSpanObserver, True) # after"
    using ask_all_split [OF all [unfolded obs] before q] by blast
  let ?ms = "handles_of (interested before) @ NilSpanObserver # handles_of (interested after)"
  let ?cso = "\<lparr>observers_cso = Slice ?ms (slice_len (observers_co co))\<rparr>"
  have ms: "handles_of (interested answers) = ?ms"
    unfolding ans by (rule handles_of_interested_split)
  then have ne: "interested answers \<noteq> []"
    by (auto simp: handles_of_def)
  have run: "compositeObserver_OnStartSpan E co sp nm opts s =
      (Returned (length (heap t)), t\<lparr>heap := heap t @ [?cso]\<rparr>)"
    using OnStartSpan_some_interested [OF all ne] ms by simp
  have d: "deref (heap (t\<lparr>heap := heap t @ [?cso]\<rparr>)) (length (heap t)) = Some ?cso"
    by (simp add: deref_fresh)
  have mem: "slice_elems (observers_cso ?cso) = ?ms"
    by simp
  have nil_in: "NilSpanObserver \<in> set ?ms" by simp
  have never0: "fst (notify E (length (heap t)) c v) \<noteq> Returned ()"
    if "deref (heap v) (length (heap t)) = Some ?cso" for c v
    using that nil_in range_call_nil_member [of ?ms E c v]
    by (simp add: notify_range compositeSpanObserver_range_def)
  have never: "\<forall>c v. deref (heap v) (length (heap t)) = Some ?cso
      \<longrightarrow> fst (notify E (length (heap t)) c v) \<noteq> Returned ()"
    using never0 by blast
  have reached0: "notify E (length (heap t)) c v = (Panicked NilDereference, v')"
    if "deref (heap v) (length (heap t)) = Some ?cso
      \<and> range_call E (handles_of (interested before)) c v = (Returned (), v')" for c v v'
    using that
      range_call_nil_reached [of E "handles_of (interested before)" c v v'
        "handles_of (interested after)"]
    by (simp add: notify_range compositeSpanObserver_range_def)
  have reached: "\<forall>c v v'. deref (heap v) (length (heap t)) = Some ?cso
      \<and> range_call E (handles_of (interested before)) c v = (Returned (), v')
      \<longrightarrow> notify E (length (heap t)) c v = (Panicked NilDereference, v')"
    using reached0 by blast
  have earlier0: "notify E (length (heap t)) c v = (Panicked p, v')"
    if "deref (heap v) (length (heap t)) = Some ?cso
      \<and> range_call E (handles_of (interested before)) c v = (Panicked p, v')" for c v v' p
    using that
      range_call_prefix_panics [of E "handles_of (interested before)" c v p v'
        "NilSpanObserver # handles_of (interested after)"]
    by (simp add: notify_range compositeSpanObserver_range_def)
  have earlier: "\<forall>c v v' p. deref (heap v) (length (heap t)) = Some ?cso
      \<and> range_call E (handles_of (interested before)) c v = (Panicked p, v')
      \<longrightarrow> notify E (length (heap t)) c v = (Panicked p, v')"
    using earlier0 by blast
  have "compositeObserver_OnStartSpan E co sp nm opts s
          = (Returned (length (heap t)), t\<lparr>heap := heap t @ [?cso]\<rparr>)
      \<and> deref (heap (t\<lparr>heap := heap t @ [?cso]\<rparr>)) (length (heap t)) = Some ?cso
      \<and> slice_elems (observers_cso ?cso) = ?ms
      \<and> (\<forall>c v. deref (heap v) (length (heap t)) = Some ?cso
            \<longrightarrow> fst (notify E (length (heap t)) c v) \<noteq> Returned ())
      \<and> (\<forall>c v v'. deref (heap v) (length (heap t)) = Some ?cso
              \<and> range_call E (handles_of (interested before)) c v = (Returned (), v')
            \<longrightarrow> notify E (length (heap t)) c v = (Panicked NilDereference, v'))
      \<and> (\<forall>c v v' p. deref (heap v) (length (heap t)) = Some ?cso
              \<and> range_call E (handles_of (interested before)) c v = (Panicked p, v')
            \<longrightarrow> notify E (length (heap t)) c v = (Panicked p, v'))"
    by (rule conjI [OF run conjI [OF d conjI [OF mem conjI [OF never
          conjI [OF reached earlier]]]]])
  then show "\<exists>a s' cso after.
             compositeObserver_OnStartSpan E co sp nm opts s = (Returned a, s')
           \<and> deref (heap s') a = Some cso
           \<and> slice_elems (observers_cso cso)
               = handles_of (interested before) @ NilSpanObserver
                   # handles_of (interested after)
           \<and> (\<forall>c v. deref (heap v) a = Some cso
                 \<longrightarrow> fst (notify E a c v) \<noteq> Returned ())
           \<and> (\<forall>c v v'. deref (heap v) a = Some cso
                   \<and> range_call E (handles_of (interested before)) c v = (Returned (), v')
                 \<longrightarrow> notify E a c v = (Panicked NilDereference, v'))
           \<and> (\<forall>c v v' p. deref (heap v) a = Some cso
                   \<and> range_call E (handles_of (interested before)) c v = (Panicked p, v')
                 \<longrightarrow> notify E a c v = (Panicked p, v'))"
    by blast
qed

theorem nil_handle_becomes_member_witness:
  "slice_elems (observers_co nil_handle_composite)
     = [NativeObserver 1] @ OldObserver \<lparr>obs = LegacyObserver 4\<rparr> # []
   \<and> ask_all demo_env [NativeObserver 1] 7 ''foo'' 0 (init_state 0)
     = (Returned [(NativeObserver 1, SpanObserver 10, True)],
        \<lparr>heap = [\<lparr>observers_cso = NilSlice\<rparr>],
          calls = [ContribStart 1 7 ''foo'' 0], world = 1\<rparr>)
   \<and> legacy_start demo_env 4 ''foo'' 0 1 = (Returned NilSpanObserver, 2)
   \<and> ask_all demo_env (slice_elems (observers_co nil_handle_composite)) 7 ''foo'' 0
        (init_state 0)
     = (Returned [(NativeObserver 1, SpanObserver 10, True),
                  (OldObserver \<lparr>obs = LegacyObserver 4\<rparr>, NilSpanObserver, True)],
        \<lparr>heap = [\<lparr>observers_cso = NilSlice\<rparr>],
          calls = [ContribStart 1 7 ''foo'' 0, LegacyStart 4 ''foo'' 0], world = 2\<rparr>)
   \<and> oldObserver_OnStartSpan demo_env \<lparr>obs = LegacyObserver 4\<rparr> 7 ''foo'' 0
        \<lparr>heap = [\<lparr>observers_cso = NilSlice\<rparr>],
          calls = [ContribStart 1 7 ''foo'' 0], world = 1\<rparr>
     = (Returned (NilSpanObserver, True),
        \<lparr>heap = [\<lparr>observers_cso = NilSlice\<rparr>],
          calls = [ContribStart 1 7 ''foo'' 0, LegacyStart 4 ''foo'' 0], world = 2\<rparr>)
   \<and> compositeObserver_OnStartSpan demo_env nil_handle_composite 7 ''foo'' 0 (init_state 0)
       = (Returned 1, nil_member_state)
   \<and> deref (heap nil_member_state) 1
       = Some \<lparr>observers_cso = Slice [SpanObserver 10, NilSpanObserver] 2\<rparr>
   \<and> notify demo_env 1 (Finish 5) nil_member_state
       = (Panicked NilDereference,
          nil_member_state\<lparr>calls := calls nil_member_state @ [SpanCall 10 (Finish 5)],
                           world := 12\<rparr>)"
proof -
  let ?u = "\<lparr>heap = [\<lparr>observers_cso = NilSlice\<rparr>],
          calls = [ContribStart 1 7 ''foo'' (0::nat)], world = 1::nat\<rparr>
          :: (nat, nat, nat, string) state"
  let ?v' = "nil_member_state\<lparr>calls := calls nil_member_state @ [SpanCall 10 (Finish 5)],
                           world := 12\<rparr>"
  have h1: "slice_elems (observers_co nil_handle_composite)
     = [NativeObserver 1] @ OldObserver \<lparr>obs = LegacyObserver 4\<rparr> # []"
    by (simp add: nil_handle_composite_observers)
  have h3: "legacy_start demo_env 4 ''foo'' 0 (world ?u) = (Returned NilSpanObserver, 2)"
    by (simp add: demo_env_def)
  have d: "deref (heap nil_member_state) 1
       = Some \<lparr>observers_cso = Slice [SpanObserver 10, NilSpanObserver] 2\<rparr>"
    by (simp add: nil_member_state_def deref_def)
  have r: "range_call demo_env
             (handles_of (interested [(NativeObserver 1, SpanObserver 10, True)]))
             (Finish 5) nil_member_state
       = (Returned (), ?v')"
    by (simp add: demo_env_def nil_member_state_def interested_def handles_of_def)
  note inst = nil_handle_becomes_member [OF h1 nil_handle_ask_before h3 nil_handle_ask]
  from inst have adapter:
    "oldObserver_OnStartSpan demo_env \<lparr>obs = LegacyObserver 4\<rparr> 7 ''foo'' 0 ?u
     = (Returned (NilSpanObserver, True),
        ?u\<lparr>calls := calls ?u @ [LegacyStart 4 ''foo'' 0], world := 2\<rparr>)"
    by (rule conjunct1)
  from inst obtain a s' cso where
    run: "compositeObserver_OnStartSpan demo_env nil_handle_composite 7 ''foo'' 0
            (init_state 0) = (Returned a, s')"
    and mem: "deref (heap s') a = Some cso"
    and reached: "\<forall>c v v'. deref (heap v) a = Some cso
        \<and> range_call demo_env
            (handles_of (interested [(NativeObserver 1, SpanObserver 10, True)])) c v
          = (Returned (), v')
        \<longrightarrow> notify demo_env a c v = (Panicked NilDereference, v')"
    by blast
  from run nil_handle_run have a: "a = 1" and s': "s' = nil_member_state" by simp_all
  with mem have "deref (heap nil_member_state) a = Some cso" by simp
  with r reached have "notify demo_env a (Finish 5) nil_member_state
      = (Panicked NilDereference, ?v')"
    by blast
  with a have n: "notify demo_env 1 (Finish 5) nil_member_state
      = (Panicked NilDereference, ?v')"
    by simp
  have adapter': "oldObserver_OnStartSpan demo_env \<lparr>obs = LegacyObserver 4\<rparr> 7 ''foo'' 0 ?u
     = (Returned (NilSpanObserver, True),
        \<lparr>heap = [\<lparr>observers_cso = NilSlice\<rparr>],
          calls = [ContribStart 1 7 ''foo'' 0, LegacyStart 4 ''foo'' 0], world = 2\<rparr>)"
    using adapter by simp
  have h3': "legacy_start demo_env 4 ''foo'' 0 1 = (Returned NilSpanObserver, 2)"
    using h3 by simp
  show ?thesis
    by (intro conjI)
      (rule h1 nil_handle_ask_before h3' nil_handle_ask adapter' nil_handle_run d n)+
qed

text \<open>The claim without the condition on the members before the nil one fails: with
  observer 5 registered before the adapter, the members are handle 30 and nil, the
  notification ends with the panic of handle 30, only that call is logged, and the
  method on the nil member is never called.\<close>

theorem nil_member_not_reached_counterexample:
  "legacy_start boom_env 4 ''foo'' 0 1 = (Returned NilSpanObserver, 2)
   \<and> oldObserver_OnStartSpan boom_env \<lparr>obs = LegacyObserver 4\<rparr> 7 ''foo'' 0
        \<lparr>heap = [\<lparr>observers_cso = NilSlice\<rparr>],
          calls = [ContribStart 5 7 ''foo'' 0], world = 1\<rparr>
     = (Returned (NilSpanObserver, True),
        \<lparr>heap = [\<lparr>observers_cso = NilSlice\<rparr>],
          calls = [ContribStart 5 7 ''foo'' 0, LegacyStart 4 ''foo'' 0], world = 2\<rparr>)
   \<and> compositeObserver_OnStartSpan boom_env boom_composite 7 ''foo'' 0 (init_state 0)
     = (Returned 1, boom_state)
   \<and> deref (heap boom_state) 1
     = Some \<lparr>observers_cso = Slice [SpanObserver 30, NilSpanObserver] 2\<rparr>
   \<and> notify boom_env 1 (Finish 5) boom_state
     = (Panicked (PanicValue ''boom''),
        \<lparr>heap = [\<lparr>observers_cso = NilSlice\<rparr>,
                 \<lparr>observers_cso = Slice [SpanObserver 30, NilSpanObserver] 2\<rparr>],
          calls = [ContribStart 5 7 ''foo'' 0, LegacyStart 4 ''foo'' 0,
                   SpanCall 30 (Finish 5)],
          world = 2\<rparr>)
   \<and> fst (notify boom_env 1 (Finish 5) boom_state) \<noteq> Panicked NilDereference"
proof -
  have l: "legacy_start boom_env 4 ''foo'' 0 1 = (Returned NilSpanObserver, 2)"
    by (simp add: boom_env_def demo_env_def)
  have ad: "oldObserver_OnStartSpan boom_env \<lparr>obs = LegacyObserver 4\<rparr> 7 ''foo'' 0
        \<lparr>heap = [\<lparr>observers_cso = NilSlice\<rparr>],
          calls = [ContribStart 5 7 ''foo'' 0], world = 1\<rparr>
     = (Returned (NilSpanObserver, True),
        \<lparr>heap = [\<lparr>observers_cso = NilSlice\<rparr>],
          calls = [ContribStart 5 7 ''foo'' 0, LegacyStart 4 ''foo'' 0], world = 2\<rparr>)"
    by (simp add: oldObserver_OnStartSpan_def boom_env_def demo_env_def)
  have d: "deref (heap boom_state) 1
     = Some \<lparr>observers_cso = Slice [SpanObserver 30, NilSpanObserver] 2\<rparr>"
    by (simp add: boom_state_def deref_def)
  have n: "notify boom_env 1 (Finish 5) boom_state
     = (Panicked (PanicValue ''boom''),
        \<lparr>heap = [\<lparr>observers_cso = NilSlice\<rparr>,
                 \<lparr>observers_cso = Slice [SpanObserver 30, NilSpanObserver] 2\<rparr>],
          calls = [ContribStart 5 7 ''foo'' 0, LegacyStart 4 ''foo'' 0,
                   SpanCall 30 (Finish 5)],
          world = 2\<rparr>)"
    using d
    by (simp add: compositeSpanObserver_OnFinish_def compositeSpanObserver_range_def
        boom_env_def demo_env_def boom_state_def)
  have ne: "fst (notify boom_env 1 (Finish 5) boom_state) \<noteq> Panicked NilDereference"
    unfolding n by simp
  show ?thesis
    by (intro conjI) (rule l ad boom_run d n ne)+
qed

section \<open>Notifications\<close>

text \<open>
  C2. Let the struct at \<open>a\<close> have \<open>M\<close> members. If the members are the non-nil
  handles \<open>hs\<close> and none of them panics on the call \<open>c\<close>, the notification returns,
  the call log has grown by exactly the calls \<open>c\<close> on \<open>hs\<close>, one per member, in
  member order, and the world is what these \<open>M\<close> calls in that order make of it.
  Conversely, whenever a notification returns, all members are non-nil and the call log
  has grown by exactly one call \<open>c\<close> per member, in member order.
\<close>

theorem notification_reaches_every_member:
  assumes "deref (heap s) a = Some cso"
  shows "(slice_elems (observers_cso cso) = map SpanObserver hs
          \<and> (\<forall>h\<in>set hs. \<forall>w. fst (span_method E h c w) = Returned ())
          \<longrightarrow> notify E a c s =
                (Returned (),
                 s\<lparr>calls := calls s @ map (\<lambda>h. SpanCall h c) hs,
                   world := foldl (\<lambda>w h. snd (span_method E h c w)) (world s) hs\<rparr>))
       \<and> (notify E a c s = (Returned (), s')
          \<longrightarrow> (\<exists>ms. slice_elems (observers_cso cso) = map SpanObserver ms
                    \<and> calls s' = calls s @ map (\<lambda>h. SpanCall h c) ms
                    \<and> length (calls s') = length (calls s)
                        + slice_len (observers_cso cso)))"
proof (intro conjI impI)
  assume "slice_elems (observers_cso cso) = map SpanObserver hs
          \<and> (\<forall>h\<in>set hs. \<forall>w. fst (span_method E h c w) = Returned ())"
  then show "notify E a c s =
      (Returned (),
       s\<lparr>calls := calls s @ map (\<lambda>h. SpanCall h c) hs,
         world := foldl (\<lambda>w h. snd (span_method E h c w)) (world s) hs\<rparr>)"
    using assms range_call_well_behaved [of hs E c s]
    by (simp add: notify_range compositeSpanObserver_range_def)
next
  assume "notify E a c s = (Returned (), s')"
  then have "range_call E (slice_elems (observers_cso cso)) c s = (Returned (), s')"
    using assms by (simp add: notify_range compositeSpanObserver_range_def)
  then obtain ms where ms: "slice_elems (observers_cso cso) = map SpanObserver ms"
      "calls s' = calls s @ map (\<lambda>h. SpanCall h c) ms"
    using range_call_returned by blast
  then have "slice_elems (observers_cso cso) = map SpanObserver ms
      \<and> calls s' = calls s @ map (\<lambda>h. SpanCall h c) ms
      \<and> length (calls s') = length (calls s) + slice_len (observers_cso cso)"
    by (simp add: slice_len_def)
  then show "\<exists>ms. slice_elems (observers_cso cso) = map SpanObserver ms
      \<and> calls s' = calls s @ map (\<lambda>h. SpanCall h c) ms
      \<and> length (calls s') = length (calls s) + slice_len (observers_cso cso)"
    by (rule exI [of _ ms])
qed

theorem notification_reaches_every_member_witness:
  "deref (heap demo_state) 1
     = Some \<lparr>observers_cso = Slice [SpanObserver 10, SpanObserver 20] 2\<rparr>
   \<and> (\<forall>w. fst (span_method demo_env 10 (Finish 5) w) = Returned ())
   \<and> (\<forall>w. fst (span_method demo_env 20 (Finish 5) w) = Returned ())
   \<and> notify demo_env 1 (Finish 5) demo_state =
       (Returned (),
        demo_state\<lparr>calls := calls demo_state @ [SpanCall 10 (Finish 5), SpanCall 20 (Finish 5)],
                   world := 32\<rparr>)"
proof -
  have d: "deref (heap demo_state) 1
     = Some \<lparr>observers_cso = Slice [SpanObserver 10, SpanObserver 20] 2\<rparr>"
    by (simp add: demo_state_def deref_def)
  have b: "\<forall>w. fst (span_method demo_env h (Finish 5) w) = Returned ()"
    if "h = 10 \<or> h = 20" for h :: nat
    using that by (auto simp: demo_env_def)
  show ?thesis
    using notification_reaches_every_member [OF d, of "[10, 20]" demo_env "Finish 5"] d b
    by (simp add: demo_env_def demo_state_def)
qed

text \<open>
  C6. Any sequence of notifications on the shared no-op pointer returns normally and
  leaves the whole state as it was: the heap, the call log and the world.
\<close>

theorem noop_set_does_nothing:
  "noop_allocated s \<Longrightarrow> notify_all E noopCompositeSpanObserver cs s = (Returned (), s)"
  by (induction cs) (simp_all add: notify_noop)

theorem noop_set_does_nothing_witness:
  "noop_allocated (init_state 0 :: (nat, nat, nat, string) state)
   \<and> notify_all demo_env noopCompositeSpanObserver
        [SetTag ''k'' ''v'', Finish 1, SetOperationName ''op'', SetTag ''k'' ''v'']
        (init_state 0)
      = (Returned (), init_state 0)"
proof -
  have a: "noop_allocated (init_state 0 :: (nat, nat, nat, string) state)"
    by (rule noop_allocated_init)
  show ?thesis
    using noop_set_does_nothing [OF a] a by blast
qed

text \<open>
  C7. None of the three notification methods, and no sequence of them, changes any
  struct of the heap, whether it returns or panics; and \<open>OnStartSpan\<close>, the only
  function that writes to the heap, leaves every struct allocated before the call as it
  was. So the member list of a struct is the one it was allocated with.
\<close>

theorem membership_is_fixed:
  "heap (snd (compositeSpanObserver_OnSetOperationName E a nm s)) = heap s
   \<and> heap (snd (compositeSpanObserver_OnSetTag E a key val s)) = heap s
   \<and> heap (snd (compositeSpanObserver_OnFinish E a fopts s)) = heap s
   \<and> heap (snd (notify_all E a cs s)) = heap s
   \<and> take (length (heap s)) (heap (snd (compositeObserver_OnStartSpan E co sp nm opts s)))
       = heap s"
proof -
  have "heap (snd (compositeSpanObserver_OnSetOperationName E a nm s)) = heap s"
    using notify_heap [of E a "SetOperationName nm" s] by simp
  moreover have "heap (snd (compositeSpanObserver_OnSetTag E a key val s)) = heap s"
    using notify_heap [of E a "SetTag key val" s] by simp
  moreover have "heap (snd (compositeSpanObserver_OnFinish E a fopts s)) = heap s"
    using notify_heap [of E a "Finish fopts" s] by simp
  moreover have "heap (snd (notify_all E a cs s)) = heap s"
    by (rule notify_all_heap)
  moreover have "take (length (heap s))
      (heap (snd (compositeObserver_OnStartSpan E co sp nm opts s))) = heap s"
    using OnStartSpan_heap [of E co sp nm opts s] by auto
  ultimately show ?thesis by simp
qed

text \<open>
  C9. In a notification, when the members before position \<open>i\<close> return and member
  \<open>i\<close> panics, the notification ends with that same panic in the state member
  \<open>i\<close> left: the call log ends with the call on member \<open>i\<close> (with nothing, when
  that member is nil), and no later member is called. In \<open>OnStartSpan\<close>, when the
  observers before position \<open>i\<close> answer and observer \<open>i\<close> panics, the call ends with
  that same panic in the state observer \<open>i\<close> left, and no struct is allocated.
\<close>

theorem abort_ends_fan_out:
  "(deref (heap s) a = Some cso
      \<and> slice_elems (observers_cso cso) = pre @ m # post
      \<and> range_call E pre c s = (Returned (), t)
      \<and> ContribSpanObserver_call E m c t = (Panicked p, t')
    \<longrightarrow> notify E a c s = (Panicked p, t')
        \<and> calls t' = calls t @ (case m of NilSpanObserver \<Rightarrow> []
                                 | SpanObserver h \<Rightarrow> [SpanCall h c]))
   \<and> (slice_elems (observers_co co) = pre' @ ob # post'
      \<and> ask_all E pre' sp nm opts s = (Returned answers, u)
      \<and> ContribObserver_OnStartSpan E ob sp nm opts u = (Panicked p, u')
    \<longrightarrow> compositeObserver_OnStartSpan E co sp nm opts s = (Panicked p, u')
        \<and> heap u' = heap s)"
proof (intro conjI impI)
  assume a: "deref (heap s) a = Some cso
      \<and> slice_elems (observers_cso cso) = pre @ m # post
      \<and> range_call E pre c s = (Returned (), t)
      \<and> ContribSpanObserver_call E m c t = (Panicked p, t')"
  then have "range_call E (pre @ m # post) c s = (Panicked p, t')"
    by (simp add: range_call_abort)
  with a show "notify E a c s = (Panicked p, t')"
    by (simp add: notify_range compositeSpanObserver_range_def)
  from a show "calls t' = calls t @ (case m of NilSpanObserver \<Rightarrow> []
                                 | SpanObserver h \<Rightarrow> [SpanCall h c])"
    by (cases m) (auto split: prod.splits)
next
  assume a: "slice_elems (observers_co co) = pre' @ ob # post'
      \<and> ask_all E pre' sp nm opts s = (Returned answers, u)
      \<and> ContribObserver_OnStartSpan E ob sp nm opts u = (Panicked p, u')"
  then have ask: "ask_all E (slice_elems (observers_co co)) sp nm opts s = (Panicked p, u')"
    by (simp add: ask_all_append)
  then show "compositeObserver_OnStartSpan E co sp nm opts s = (Panicked p, u')"
    by (rule OnStartSpan_panics)
  from ask show "heap u' = heap s" by (rule ask_all_heap)
qed

theorem abort_ends_fan_out_witness:
  "deref (heap abort_state) 1
     = Some \<lparr>observers_cso = Slice [SpanObserver 10, SpanObserver 30, SpanObserver 20] 3\<rparr>
   \<and> range_call demo_env [SpanObserver 10] (SetTag ''k'' ''v'') abort_state
     = (Returned (), abort_state\<lparr>calls := [SpanCall 10 (SetTag ''k'' ''v'')], world := 10\<rparr>)
   \<and> ContribSpanObserver_call demo_env (SpanObserver 30) (SetTag ''k'' ''v'')
        (abort_state\<lparr>calls := [SpanCall 10 (SetTag ''k'' ''v'')], world := 10\<rparr>)
     = (Panicked (PanicValue ''boom''),
        abort_state\<lparr>calls := [SpanCall 10 (SetTag ''k'' ''v''), SpanCall 30 (SetTag ''k'' ''v'')],
                    world := 10\<rparr>)
   \<and> notify demo_env 1 (SetTag ''k'' ''v'') abort_state
     = (Panicked (PanicValue ''boom''),
        abort_state\<lparr>calls := [SpanCall 10 (SetTag ''k'' ''v''), SpanCall 30 (SetTag ''k'' ''v'')],
                    world := 10\<rparr>)
   \<and> ask_all demo_env [NativeObserver 1, OldObserver \<lparr>obs = LegacyObserver 2\<rparr>]
        7 ''foo'' 0 (init_state 0)
     = (Returned [(NativeObserver 1, SpanObserver 10, True),
                  (OldObserver \<lparr>obs = LegacyObserver 2\<rparr>, SpanObserver 20, True)],
        \<lparr>heap = [\<lparr>observers_cso = NilSlice\<rparr>],
          calls = [ContribStart 1 7 ''foo'' 0, LegacyStart 2 ''foo'' 0], world = 2\<rparr>)
   \<and> compositeObserver_OnStartSpan demo_env panicking_composite 7 ''foo'' 0 (init_state 0)
     = (Panicked (PanicValue ''boom''),
        \<lparr>heap = [\<lparr>observers_cso = NilSlice\<rparr>],
          calls = [ContribStart 1 7 ''foo'' 0, LegacyStart 2 ''foo'' 0,
                   ContribStart 3 7 ''foo'' 0], world = 2\<rparr>)"
proof -
  let ?c = "SetTag ''k'' ''v'' :: (nat, string) span_call"
  let ?t = "abort_state\<lparr>calls := [SpanCall 10 ?c], world := 10\<rparr>"
  let ?t' = "abort_state\<lparr>calls := [SpanCall 10 ?c, SpanCall 30 ?c], world := 10\<rparr>"
  let ?u = "\<lparr>heap = [\<lparr>observers_cso = NilSlice\<rparr>],
          calls = [ContribStart 1 7 ''foo'' 0, LegacyStart 2 ''foo'' (0::nat)],
          world = 2::nat\<rparr> :: (nat, nat, nat, string) state"
  let ?u' = "\<lparr>heap = [\<lparr>observers_cso = NilSlice\<rparr>],
          calls = [ContribStart 1 7 ''foo'' 0, LegacyStart 2 ''foo'' (0::nat),
                   ContribStart 3 7 ''foo'' 0], world = 2::nat\<rparr> :: (nat, nat, nat, string) state"
  have d: "deref (heap abort_state) 1
     = Some \<lparr>observers_cso = Slice [SpanObserver 10, SpanObserver 30, SpanObserver 20] 3\<rparr>"
    by (simp add: abort_state_def deref_def)
  have m: "slice_elems (observers_cso
       \<lparr>observers_cso = Slice [SpanObserver 10, SpanObserver 30, SpanObserver 20] 3\<rparr>)
     = [SpanObserver 10] @ SpanObserver 30 # [SpanObserver 20]"
    by simp
  have r: "range_call demo_env [SpanObserver 10] ?c abort_state = (Returned (), ?t)"
    by (simp add: demo_env_def abort_state_def)
  have p: "ContribSpanObserver_call demo_env (SpanObserver 30) ?c ?t
     = (Panicked (PanicValue ''boom''), ?t')"
    by (simp add: demo_env_def abort_state_def)
  have q: "ask_all demo_env [NativeObserver 1, OldObserver \<lparr>obs = LegacyObserver 2\<rparr>]
        7 ''foo'' 0 (init_state 0)
     = (Returned [(NativeObserver 1, SpanObserver 10, True),
                  (OldObserver \<lparr>obs = LegacyObserver 2\<rparr>, SpanObserver 20, True)], ?u)"
    using demo_ask_foo by (simp add: demo_composite_observers)
  have b: "ContribObserver_OnStartSpan demo_env (NativeObserver 3) 7 ''foo'' 0 ?u
     = (Panicked (PanicValue ''boom''), ?u')"
    by (simp add: demo_env_def)
  show ?thesis
    using abort_ends_fan_out
      [where E = demo_env and s = abort_state and a = 1 and c = ?c
         and cso = "\<lparr>observers_cso = Slice [SpanObserver 10, SpanObserver 30, SpanObserver 20] 3\<rparr>"
         and pre = "[SpanObserver 10]" and m = "SpanObserver 30" and post = "[SpanObserver 20]"
         and t = ?t and t' = ?t' and p = "PanicValue ''boom''"]
      abort_ends_fan_out
      [where E = demo_env and s = "init_state 0" and co = panicking_composite
         and pre' = "[NativeObserver 1, OldObserver \<lparr>obs = LegacyObserver 2\<rparr>]"
         and ob = "NativeObserver 3" and post' = "[]" and sp = 7 and nm = "''foo''"
         and opts = 0 and u = ?u and u' = ?u' and p = "PanicValue ''boom''"
         and answers = "[(NativeObserver 1, SpanObserver 10, True),
                  (OldObserver \<lparr>obs = LegacyObserver 2\<rparr>, SpanObserver 20, True)]"]
      d m r p q b panicking_composite_observers
    by simp
qed

section \<open>Registration\<close>


text \<open>
  C8. \<open>append\<close> puts the observer at the end of the observer list and leaves the
  observers registered before as they were, in their order; it checks nothing, so the
  same observer registered twice is there twice; and it is a total function from the
  struct to the struct, with no result that signals failure.
\<close>

theorem append_registers_at_end:
  "slice_elems (observers_co (compositeObserver_append E co ob))
     = slice_elems (observers_co co) @ [ob]
   \<and> take (slice_len (observers_co co))
        (slice_elems (observers_co (compositeObserver_append E co ob)))
     = slice_elems (observers_co co)
   \<and> slice_len (observers_co (compositeObserver_append E co ob))
     = slice_len (observers_co co) + 1
   \<and> slice_elems (observers_co
        (compositeObserver_append E (compositeObserver_append E co ob) ob))
     = slice_elems (observers_co co) @ [ob, ob]
   \<and> count_list (slice_elems (observers_co (compositeObserver_append E co ob))) ob
     = count_list (slice_elems (observers_co co)) ob + 1"
  by (simp add: compositeObserver_append_def slice_len_def)

end
